theory Spec2Isabelle
  imports Main "HOL-Library.Word" "HOL-Library.Sublist"
begin

unbundle bit_operations_syntax

section \<open>JavaScript strings\<close>

text \<open>
  A JavaScript string is a sequence of 16-bit UTF-16 code units.  String literals of the
  source are ASCII; \<open>lit\<close> embeds them.
\<close>

type_synonym jsstring = "16 word list"

definition lit :: "string \<Rightarrow> jsstring" where
  "lit cs = map (\<lambda>c. of_nat (of_char c)) cs"

text \<open>
  The code units that \<open>String.prototype.trim\<close> and \<open>parseInt\<close> remove: the
  WhiteSpace and LineTerminator productions of ECMAScript (TAB, LF, VT, FF, CR, SP, NBSP,
  U+1680, U+2000..U+200A, U+2028, U+2029, U+202F, U+205F, U+3000, U+FEFF).
\<close>

definition isWhiteSpace :: "16 word \<Rightarrow> bool" where
  "isWhiteSpace c =
     ((9 \<le> c \<and> c \<le> 13) \<or> c = 32 \<or> c = 160 \<or> c = 5760 \<or> (8192 \<le> c \<and> c \<le> 8202) \<or>
      c = 8232 \<or> c = 8233 \<or> c = 8239 \<or> c = 8287 \<or> c = 12288 \<or> c = 65279)"

definition trimStart :: "jsstring \<Rightarrow> jsstring" where
  "trimStart s = dropWhile isWhiteSpace s"

definition trim :: "jsstring \<Rightarrow> jsstring" where
  "trim s = rev (dropWhile isWhiteSpace (rev (dropWhile isWhiteSpace s)))"

text \<open>
  \<open>String.prototype.slice(start, end)\<close>: a negative index counts from the end, and both
  indices are clamped to the string.
\<close>

definition slice :: "jsstring \<Rightarrow> int \<Rightarrow> int \<Rightarrow> jsstring" where
  "slice s start end =
     (let len = int (length s);
          from = (if start < 0 then max (len + start) 0 else min start len);
          to = (if end < 0 then max (len + end) 0 else min end len);
          span = max (to - from) 0
      in take (nat span) (drop (nat from) s))"

text \<open>The value of a code unit as a digit of radix 16, if it is one.\<close>

definition hexDigit :: "16 word \<Rightarrow> int option" where
  "hexDigit c =
     (if 48 \<le> c \<and> c \<le> 57 then Some (uint c - 48)
      else if 97 \<le> c \<and> c \<le> 102 then Some (uint c - 87)
      else if 65 \<le> c \<and> c \<le> 70 then Some (uint c - 55)
      else None)"

text \<open>
  The digits of the longest prefix made of radix-16 digits, folded into the number read so
  far; the flag tells whether a digit was read.
\<close>

fun hexPrefix :: "jsstring \<Rightarrow> int \<Rightarrow> bool \<Rightarrow> int option" where
  "hexPrefix [] acc seen = (if seen then Some acc else None)"
| "hexPrefix (c # cs) acc seen =
     (case hexDigit c of
        None \<Rightarrow> (if seen then Some acc else None)
      | Some d \<Rightarrow> hexPrefix cs (16 * acc + d) True)"

text \<open>
  \<open>parseInt(s, 16)\<close>: leading white space is dropped, then one sign, then a \<open>0x\<close> or
  \<open>0X\<close> prefix; the longest run of hexadecimal digits is the number, and no digit at all
  gives NaN (\<open>None\<close>).
\<close>

definition parseInt16 :: "jsstring \<Rightarrow> int option" where
  "parseInt16 s =
     (let s1 = trimStart s;
          sign = (case s1 of c # _ \<Rightarrow> if c = 45 then - 1 else (1::int) | [] \<Rightarrow> 1);
          s2 = (case s1 of c # cs \<Rightarrow> if c = 43 \<or> c = 45 then cs else s1 | [] \<Rightarrow> s1);
          s3 = (case s2 of
                  c # d # cs \<Rightarrow> if c = 48 \<and> (d = 120 \<or> d = 88) then cs else s2
                | _ \<Rightarrow> s2)
      in map_option (\<lambda>n. sign * n) (hexPrefix s3 0 False))"

text \<open>
  \<open>ToInt32\<close>, applied by \<open>>>\<close> and \<open>&\<close> to their operands: NaN becomes 0, an integer
  is taken modulo \<open>2 ^ 32\<close>.
\<close>

definition toInt32 :: "int option \<Rightarrow> 32 word" where
  "toInt32 v = (case v of None \<Rightarrow> 0 | Some n \<Rightarrow> of_int n)"

text \<open>The decimal numeral of a natural number, as a template literal prints it.\<close>

fun decimal :: "nat \<Rightarrow> jsstring" where
  "decimal n = (if n < 10 then [of_nat (48 + n)] else decimal (n div 10) @ [of_nat (48 + n mod 10)])"

section \<open>Utility functions\<close>

text \<open>
  \<open>generateAvatarGradient\<close>: an empty address gives the grey gradient; otherwise the code
  units 2..9 are read as a hexadecimal number, whose bytes 2, 1 and 0 are the colour, and the
  second colour is its complement.  \<open>>>\<close> is the sign-propagating shift of a 32-bit value.
\<close>

definition generateAvatarGradient :: "jsstring \<Rightarrow> jsstring" where
  "generateAvatarGradient address =
     (if address = [] then lit ''linear-gradient(135deg, #ccc, #999)''
      else
        let hash = toInt32 (parseInt16 (slice address 2 10));
            r = sint (signed_drop_bit 16 hash AND 255);
            g = sint (signed_drop_bit 8 hash AND 255);
            b = sint (hash AND 255)
        in lit ''linear-gradient(135deg, rgb('' @ decimal (nat r) @ lit '','' @ decimal (nat g) @
           lit '','' @ decimal (nat b) @ lit ''), rgb('' @ decimal (nat (255 - r)) @ lit '','' @
           decimal (nat (255 - g)) @ lit '','' @ decimal (nat (255 - b)) @ lit ''))'')"

section \<open>Data model\<close>

text \<open>\<open>MessageItem\<close>.  A \<open>Date\<close> is its time value in milliseconds, \<open>None\<close> for an Invalid Date.\<close>

record MessageItem =
  sender :: jsstring
  "text" :: jsstring
  timestamp :: "int option"

text \<open>The \<open>type\<close> of a toast: \<open>'success' | 'error' | 'loading' | ''\<close>.\<close>

datatype toast_type = Success | Error | Loading | NoType

record ToastState =
  "show" :: bool
  type :: toast_type
  msg :: jsstring

text \<open>The \<open>filterType\<close>: \<open>'all' | 'mine'\<close>.\<close>

datatype filter_type = F_all | F_mine

text \<open>
  What the wallet provider and the contract answer.  An awaited call settles with a value or
  rejects with an error; a transaction handle is a number.
\<close>

datatype js_error = JsError jsstring

type_synonym 'a promise = "js_error + 'a"

type_synonym tx = nat

text \<open>An entry as \<open>contract.Messages(i)\<close> returns it; the timestamp is a \<open>uint256\<close> of seconds.\<close>

record RawMessage =
  raw_sender :: jsstring
  raw_text :: jsstring
  raw_timestamp :: nat

text \<open>
  The environment of one handler run: whether \<open>window.ethereum\<close> is defined, and the outcome
  of each call the handler can await.
\<close>

record world =
  ethereum :: bool
  eth_requestAccounts :: "jsstring list promise"
  eth_accounts :: "jsstring list promise"
  contract_owner :: "jsstring promise"
  contract_getMessagesCount :: "nat promise"
  contract_Messages :: "int \<Rightarrow> RawMessage promise"
  provider_getSigner :: "unit promise"
  contract_postMessage :: "jsstring \<Rightarrow> tx promise"
  tx_wait :: "tx \<Rightarrow> unit promise"

text \<open>
  The effects a handler has outside the component state, in the order they happen: calls
  to the provider or the contract, toasts shown, \<open>console.error\<close>, the clipboard, and one
  \<open>Fetch\<close> mark for every run of \<open>getAllMessages\<close>.
\<close>

datatype rpc =
    EthRequestAccounts | EthAccounts | ContractOwner | GetMessagesCount | Messages int
  | GetSigner | PostMessage jsstring | TxWait tx

datatype event = Call rpc | Toast toast_type jsstring | ConsoleError | ClipboardWrite jsstring | Fetch

text \<open>
  The state of \<open>App\<close>: the \<open>useState\<close> cells and the \<open>toastTimeoutRef\<close>, the browser's
  timers (identifier and due time of every pending timeout, the clock in milliseconds, the
  last identifier handed out), and the record of effects.  The only callback this program
  ever schedules is the one that hides the toast, so a pending timer needs no closure.
\<close>

record app =
  currentAccount :: "jsstring option"
  owner :: "jsstring option"
  message :: jsstring
  isSubmitting :: bool
  isLoadingMessages :: bool
  allMessages :: "MessageItem list"
  filterType :: filter_type
  toast :: ToastState
  toastTimeoutRef :: "nat option"
  timers :: "(nat \<times> nat) list"
  now :: nat
  timerSeq :: nat
  trace :: "event list"

definition init :: app where
  "init = \<lparr>currentAccount = None, owner = None, message = [], isSubmitting = False,
     isLoadingMessages = False, allMessages = [], filterType = F_all,
     toast = \<lparr>show = False, type = NoType, msg = []\<rparr>, toastTimeoutRef = None,
     timers = [], now = 0, timerSeq = 0, trace = []\<rparr>"

definition emit :: "event \<Rightarrow> app \<Rightarrow> app" where
  "emit e s = s\<lparr>trace := trace s @ [e]\<rparr>"

section \<open>Timers\<close>

text \<open>\<open>setTimeout\<close> hands out a fresh positive identifier and queues the timer.\<close>

definition setTimeout :: "nat \<Rightarrow> app \<Rightarrow> nat \<times> app" where
  "setTimeout delay s =
     (let t = Suc (timerSeq s)
      in (t, s\<lparr>timers := timers s @ [(t, now s + delay)], timerSeq := t\<rparr>))"

text \<open>\<open>clearTimeout\<close> cancels the timer of that identifier, if it is still pending.\<close>

definition clearTimeout :: "nat \<Rightarrow> app \<Rightarrow> app" where
  "clearTimeout t s = s\<lparr>timers := filter (\<lambda>p. fst p \<noteq> t) (timers s)\<rparr>"

text \<open>
  Time passes: every timer due by then fires and leaves the queue.  Firing runs
  \<open>setToast((prev) => ({ ...prev, show: false }))\<close>.
\<close>

definition advance :: "nat \<Rightarrow> app \<Rightarrow> app" where
  "advance d s =
     (let t = now s + d;
          due = filter (\<lambda>p. snd p \<le> t) (timers s);
          rest = filter (\<lambda>p. \<not> snd p \<le> t) (timers s)
      in s\<lparr>now := t, timers := rest,
            toast := (if due = [] then toast s else (toast s)\<lparr>show := False\<rparr>)\<rparr>)"

section \<open>Notification channel\<close>

definition showToast :: "toast_type \<Rightarrow> jsstring \<Rightarrow> app \<Rightarrow> app" where
  "showToast ty m s =
     (let s1 = (case toastTimeoutRef s of
                  Some t \<Rightarrow> if t \<noteq> 0 then clearTimeout t s else s
                | None \<Rightarrow> s);
          s2 = emit (Toast ty m) (s1\<lparr>toast := \<lparr>show = True, type = ty, msg = m\<rparr>\<rparr>);
          (t, s3) = setTimeout 3000 s2
      in s3\<lparr>toastTimeoutRef := Some t\<rparr>)"

definition copyAddress :: "jsstring \<Rightarrow> app \<Rightarrow> app" where
  "copyAddress addr s =
     showToast Success (lit ''Address copied to clipboard'') (emit (ClipboardWrite addr) s)"

section \<open>Wallet session\<close>

text \<open>\<open>getProvider\<close>: a provider when \<open>window.ethereum\<close> is defined, else \<open>null\<close>.\<close>

definition getProvider :: "world \<Rightarrow> unit option" where
  "getProvider w = (if ethereum w then Some () else None)"

text \<open>\<open>accounts[0]\<close>: \<open>undefined\<close> on an empty array, which the state holds as no account.\<close>

definition first_account :: "jsstring list \<Rightarrow> jsstring option" where
  "first_account accounts = (case accounts of [] \<Rightarrow> None | a # _ \<Rightarrow> Some a)"

definition connectWallet :: "world \<Rightarrow> app \<Rightarrow> app" where
  "connectWallet w s =
     (case getProvider w of
        Some provider \<Rightarrow>
          (let s1 = emit (Call EthRequestAccounts) s
           in case eth_requestAccounts w of
                Inr accounts \<Rightarrow>
                  showToast Success (lit ''Wallet connected successfully'')
                    (s1\<lparr>currentAccount := first_account accounts\<rparr>)
              | Inl e \<Rightarrow> showToast Error (lit ''Connection rejected'') (emit ConsoleError s1))
      | None \<Rightarrow> showToast Error (lit ''Please install MetaMask'') s)"

definition checkIfWalletIsConnected :: "world \<Rightarrow> app \<Rightarrow> app" where
  "checkIfWalletIsConnected w s =
     (case getProvider w of
        Some provider \<Rightarrow>
          (let s1 = emit (Call EthAccounts) s
           in case eth_accounts w of
                Inr accounts \<Rightarrow>
                  (if length accounts > 0 then s1\<lparr>currentAccount := first_account accounts\<rparr> else s1)
              | Inl e \<Rightarrow> emit ConsoleError s1)
      | None \<Rightarrow> s)"

text \<open>The handler of the provider's \<open>accountsChanged\<close> event.\<close>

definition accountsChanged :: "jsstring list \<Rightarrow> app \<Rightarrow> app" where
  "accountsChanged accounts s =
     s\<lparr>currentAccount := (if length accounts > 0 then first_account accounts else None)\<rparr>"

section \<open>Contract reads\<close>

definition getOwner :: "world \<Rightarrow> app \<Rightarrow> app" where
  "getOwner w s =
     (case getProvider w of
        Some provider \<Rightarrow>
          (let s1 = emit (Call ContractOwner) s
           in case contract_owner w of
                Inr ownerAddress \<Rightarrow> s1\<lparr>owner := Some ownerAddress\<rparr>
              | Inl e \<Rightarrow> emit ConsoleError s1)
      | None \<Rightarrow> s)"

text \<open>
  \<open>new Date(Number(msg.timestamp) * 1000)\<close>: a time value beyond 8.64e15 milliseconds is an
  Invalid Date.  Below that bound the product is exact in a double, and a timestamp that
  \<open>Number\<close> rounds is far above it.
\<close>

definition formatMessage :: "RawMessage \<Rightarrow> MessageItem" where
  "formatMessage m =
     \<lparr>sender = raw_sender m, text = raw_text m,
      timestamp = (if int (raw_timestamp m) * 1000 \<le> 8640000000000000
                   then Some (int (raw_timestamp m) * 1000) else None)\<rparr>"

text \<open>
  The loop \<open>for (let i = count - 1; i >= limit; i--) promises.push(contract.Messages(i))\<close>:
  every iteration issues its read at once and keeps the promise.  Here the counter is an
  integer, which is what the double of the source holds as long as the count is at most
  \<open>2 ^ 53\<close>; \<open>push_loop_double\<close> below is the loop on doubles, for every count.
\<close>

function push_loop ::
  "world \<Rightarrow> int \<Rightarrow> int \<Rightarrow> RawMessage promise list \<times> app \<Rightarrow> RawMessage promise list \<times> app" where
  "push_loop w i limit (promises, s) =
     (if i \<ge> limit
      then push_loop w (i - 1) limit (promises @ [contract_Messages w i], emit (Call (Messages i)) s)
      else (promises, s))"
  by pat_completeness auto
termination
  by (relation "measure (\<lambda>(w, i, limit, ps). nat (i - limit + 1))") auto

declare push_loop.simps [simp del]

text \<open>
  \<open>Promise.all\<close>: the values in the order of the promises, or a rejection when one of them
  rejects.  Which rejection it reports depends on the order the reads settle in; the handler
  only passes it to \<open>console.error\<close>, and the model takes the first in the list.
\<close>

fun Promise_all :: "'a promise list \<Rightarrow> 'a list promise" where
  "Promise_all [] = Inr []"
| "Promise_all (p # ps) =
     (case p of
        Inl e \<Rightarrow> Inl e
      | Inr x \<Rightarrow> (case Promise_all ps of Inl e \<Rightarrow> Inl e | Inr xs \<Rightarrow> Inr (x # xs)))"

text \<open>
  The \<open>try\<close> block of \<open>getAllMessages\<close>: the state it leaves, and the error when it throws.
  \<open>Number(count)\<close>, \<open>count - 50\<close> and \<open>count - 1\<close> are taken as integers, which they are
  for a count of at most \<open>2 ^ 53\<close>; \<open>getAllMessages_try_double\<close> below rounds them as the
  source does, for every count.
\<close>

definition getAllMessages_try :: "world \<Rightarrow> app \<Rightarrow> js_error option \<times> app" where
  "getAllMessages_try w s =
     (let s1 = s\<lparr>isLoadingMessages := True\<rparr>;
          s2 = emit (Call GetMessagesCount) s1
      in case contract_getMessagesCount w of
           Inl e \<Rightarrow> (Some e, s2)
         | Inr c \<Rightarrow>
             (let count = int c;
                  limit = max 0 (count - 50);
                  (promises, s3) = push_loop w (count - 1) limit ([], s2)
              in case Promise_all promises of
                   Inl e \<Rightarrow> (Some e, s3)
                 | Inr results \<Rightarrow> (None, s3\<lparr>allMessages := map formatMessage results\<rparr>)))"

definition getAllMessages :: "world \<Rightarrow> app \<Rightarrow> app" where
  "getAllMessages w s0 =
     (let s = emit Fetch s0
      in case getProvider w of
           Some provider \<Rightarrow>
             (let s1 = (case getAllMessages_try w s of
                          (Some e, s') \<Rightarrow>
                            showToast Error (lit ''Failed to fetch messages'') (emit ConsoleError s')
                        | (None, s') \<Rightarrow> s')
              in s1\<lparr>isLoadingMessages := False\<rparr>)
         | None \<Rightarrow> s)"

subsection \<open>The arithmetic of the source: doubles\<close>

text \<open>The position of the leading bit of a positive number.\<close>

fun floor_log2 :: "nat \<Rightarrow> nat" where
  "floor_log2 n = (if n < 2 then 0 else Suc (floor_log2 (n div 2)))"

declare floor_log2.simps [simp del]

text \<open>
  The double nearest to an integer: the integer itself below \<open>2 ^ 53\<close>, and otherwise the
  multiple of the spacing at that magnitude that is nearest, the one with the even
  significand at a tie.  (Every magnitude below \<open>2 ^ 1024\<close> has a finite double; a count is a
  \<open>uint256\<close>.)  It is what \<open>Number\<close> makes of a \<open>bigint\<close>, and what \<open>-\<close> and \<open>--\<close> make of
  the exact difference of two integer doubles.
\<close>

definition roundDouble :: "int \<Rightarrow> int" where
  "roundDouble n =
     (let a = nat \<bar>n\<bar>
      in if a < 2 ^ 53 then n
         else
           let u = 2 ^ (floor_log2 a - 52);
               q = a div u;
               r = a mod u;
               q' = (if 2 * r < u then q else if u < 2 * r then q + 1
                     else if even q then q else q + 1)
           in sgn n * int (q' * u))"

text \<open>
  The loop on doubles: \<open>i--\<close> rounds \<open>i - 1\<close>.  Above \<open>2 ^ 53\<close> the rounding can give \<open>i\<close>
  back, and then the loop never ends: it has no result (\<open>None\<close>).
\<close>

partial_function (option) push_loop_double ::
  "world \<Rightarrow> int \<Rightarrow> int \<Rightarrow> RawMessage promise list \<times> app \<Rightarrow>
     (RawMessage promise list \<times> app) option" where
  "push_loop_double w i limit acc =
     (if i \<ge> limit
      then push_loop_double w (roundDouble (i - 1)) limit
             (fst acc @ [contract_Messages w i], emit (Call (Messages i)) (snd acc))
      else Some acc)"

text \<open>The \<open>try\<close> block and the handler with the arithmetic of the source.\<close>

definition getAllMessages_try_double :: "world \<Rightarrow> app \<Rightarrow> (js_error option \<times> app) option" where
  "getAllMessages_try_double w s =
     (let s1 = s\<lparr>isLoadingMessages := True\<rparr>;
          s2 = emit (Call GetMessagesCount) s1
      in case contract_getMessagesCount w of
           Inl e \<Rightarrow> Some (Some e, s2)
         | Inr c \<Rightarrow>
             (let count = roundDouble (int c);
                  limit = max 0 (roundDouble (count - 50))
              in case push_loop_double w (roundDouble (count - 1)) limit ([], s2) of
                   None \<Rightarrow> None
                 | Some (promises, s3) \<Rightarrow>
                     (case Promise_all promises of
                        Inl e \<Rightarrow> Some (Some e, s3)
                      | Inr results \<Rightarrow> Some (None, s3\<lparr>allMessages := map formatMessage results\<rparr>))))"

definition getAllMessages_double :: "world \<Rightarrow> app \<Rightarrow> app option" where
  "getAllMessages_double w s0 =
     (let s = emit Fetch s0
      in case getProvider w of
           Some provider \<Rightarrow>
             (case getAllMessages_try_double w s of
                None \<Rightarrow> None
              | Some r \<Rightarrow>
                  (let s1 = (case r of
                               (Some e, s') \<Rightarrow>
                                 showToast Error (lit ''Failed to fetch messages'')
                                   (emit ConsoleError s')
                             | (None, s') \<Rightarrow> s')
                   in Some (s1\<lparr>isLoadingMessages := False\<rparr>)))
         | None \<Rightarrow> Some s)"

section \<open>Posting\<close>

text \<open>
  The \<open>try\<close> block of \<open>postMessage\<close>.  The text sent is the \<open>message\<close> of the render the
  handler belongs to.
\<close>

definition postMessage_try :: "world \<Rightarrow> app \<Rightarrow> js_error option \<times> app" where
  "postMessage_try w s =
     (let s1 = s\<lparr>isSubmitting := True\<rparr>;
          s2 = emit (Call GetSigner) s1
      in case provider_getSigner w of
           Inl e \<Rightarrow> (Some e, s2)
         | Inr signer \<Rightarrow>
             (let s3 = emit (Call (PostMessage (message s))) s2
              in case contract_postMessage w (message s) of
                   Inl e \<Rightarrow> (Some e, s3)
                 | Inr t \<Rightarrow>
                     (let s4 = showToast Loading
                                 (lit ''Transaction submitted. Waiting for confirmation...'') s3;
                          s5 = emit (Call (TxWait t)) s4
                      in case tx_wait w t of
                           Inl e \<Rightarrow> (Some e, s5)
                         | Inr u \<Rightarrow>
                             (let s6 = s5\<lparr>message := []\<rparr>;
                                  s7 = getAllMessages w s6
                              in (None, showToast Success (lit ''Message posted successfully!'') s7)))))"

definition postMessage :: "world \<Rightarrow> app \<Rightarrow> app" where
  "postMessage w s =
     (if trim (message s) = [] then showToast Error (lit ''Message cannot be empty'') s
      else
        case getProvider w of
          Some provider \<Rightarrow>
            (let s1 = (case postMessage_try w s of
                         (Some e, s') \<Rightarrow>
                           showToast Error (lit ''Transaction failed. Check console.'')
                             (emit ConsoleError s')
                       | (None, s') \<Rightarrow> s')
             in s1\<lparr>isSubmitting := False\<rparr>)
        | None \<Rightarrow> s)"

section \<open>Feed filtering\<close>

text \<open>
  The derived \<open>displayedMessages\<close> of the component body.  \<open>toLowerCase\<close> is the
  platform's case mapping, taken as a parameter; \<open>currentAccount?.toLowerCase()\<close> is
  \<open>undefined\<close> without an account, and \<open>===\<close> never equates a string to it.
\<close>

definition displayedMessages :: "(jsstring \<Rightarrow> jsstring) \<Rightarrow> app \<Rightarrow> MessageItem list" where
  "displayedMessages toLowerCase s =
     (if filterType s = F_mine
      then filter (\<lambda>m. Some (toLowerCase (sender m)) = map_option toLowerCase (currentAccount s))
             (allMessages s)
      else allMessages s)"

text \<open>The tab buttons: \<open>onClick={() => setFilterType(...)}\<close>; the text area: \<open>setMessage\<close>.\<close>

definition setFilterType :: "filter_type \<Rightarrow> app \<Rightarrow> app" where
  "setFilterType f s = s\<lparr>filterType := f\<rparr>"

definition setMessage :: "jsstring \<Rightarrow> app \<Rightarrow> app" where
  "setMessage m s = s\<lparr>message := m\<rparr>"

text \<open>The case mapping of the ASCII letters, for the examples; every other code unit stays as it is.\<close>

definition asciiLower :: "jsstring \<Rightarrow> jsstring" where
  "asciiLower s = map (\<lambda>c. if 65 \<le> c \<and> c \<le> 90 then c + 32 else c) s"

section \<open>Reading the record of effects\<close>

fun calls :: "event list \<Rightarrow> rpc list" where
  "calls [] = []"
| "calls (Call r # es) = r # calls es"
| "calls (e # es) = calls es"

fun toasts :: "event list \<Rightarrow> (toast_type \<times> jsstring) list" where
  "toasts [] = []"
| "toasts (Toast ty m # es) = (ty, m) # toasts es"
| "toasts (e # es) = toasts es"

definition fetches :: "event list \<Rightarrow> nat" where
  "fetches es = count_list es Fetch"

text \<open>What a handler leaves alone when all it does is show a toast.\<close>

definition same_data :: "app \<Rightarrow> app \<Rightarrow> bool" where
  "same_data s s' =
     (currentAccount s' = currentAccount s \<and> owner s' = owner s \<and> message s' = message s \<and>
      isSubmitting s' = isSubmitting s \<and> isLoadingMessages s' = isLoadingMessages s \<and>
      allMessages s' = allMessages s \<and> filterType s' = filterType s \<and> now s' = now s)"

text \<open>The indices \<open>i, i - 1, \<dots>, limit\<close> the loop visits.\<close>

definition down :: "int \<Rightarrow> int \<Rightarrow> int list" where
  "down i limit = rev [limit..i]"

text \<open>The reads one run of \<open>getAllMessages\<close> issues, in order.\<close>

definition fetch_calls :: "world \<Rightarrow> rpc list" where
  "fetch_calls w =
     GetMessagesCount #
     (case contract_getMessagesCount w of
        Inl e \<Rightarrow> []
      | Inr c \<Rightarrow> map Messages (down (int c - 1) (max 0 (int c - 50))))"

text \<open>
  Every pending timer is the one \<open>toastTimeoutRef\<close> holds.  It is true of the initial
  state and every handler keeps it.
\<close>

definition timers_ok :: "app \<Rightarrow> bool" where
  "timers_ok s = list_all (\<lambda>p. toastTimeoutRef s = Some (fst p) \<and> fst p \<noteq> 0) (timers s)"

section \<open>Sample environments\<close>

text \<open>
  A log of three entries whose senders are A, B, A, behind a wallet that grants account A
  and confirms every transaction.
\<close>

definition addrA :: jsstring where
  "addrA = lit ''0xAAaa000000000000000000000000000000000001''"

definition addrB :: jsstring where
  "addrB = lit ''0xBBbb000000000000000000000000000000000002''"

definition entry :: "int \<Rightarrow> RawMessage" where
  "entry i =
     \<lparr>raw_sender = (if i = 1 then addrB else addrA), raw_text = decimal (nat i),
      raw_timestamp = 1700000000 + nat i\<rparr>"

definition chain3 :: world where
  "chain3 =
     \<lparr>ethereum = True, eth_requestAccounts = Inr [addrA], eth_accounts = Inr [addrA],
      contract_owner = Inr addrB, contract_getMessagesCount = Inr 3,
      contract_Messages = (\<lambda>i. Inr (entry i)), provider_getSigner = Inr (),
      contract_postMessage = (\<lambda>m. Inr 7), tx_wait = (\<lambda>t. Inr ())\<rparr>"

text \<open>The same log when the read of entry 1 fails.\<close>

definition timeout :: js_error where
  "timeout = JsError (lit ''timeout'')"

definition chain3_broken :: world where
  "chain3_broken = chain3\<lparr>contract_Messages := (\<lambda>i. if i = 1 then Inl timeout else Inr (entry i))\<rparr>"



text \<open>A browser without a wallet extension.\<close>

definition no_wallet :: world where
  "no_wallet = chain3\<lparr>ethereum := False\<rparr>"

text \<open>A wallet whose user declines the connection and the signature.\<close>

definition rejected :: js_error where
  "rejected = JsError (lit ''user rejected'')"

definition declining :: world where
  "declining = chain3\<lparr>eth_requestAccounts := Inl rejected, provider_getSigner := Inl rejected\<rparr>"

text \<open>A transaction that is accepted and then reverts.\<close>

definition reverting :: world where
  "reverting = chain3\<lparr>tx_wait := (\<lambda>t. Inl (JsError (lit ''reverted'')))\<rparr>"

text \<open>The state of a connected user who has typed a draft.\<close>

definition draft :: app where
  "draft = init\<lparr>currentAccount := Some addrA, message := lit ''hello''\<rparr>"

text \<open>The state of a user who has typed white space only: spaces, a tab and U+3000.\<close>

definition blank :: app where
  "blank = init\<lparr>currentAccount := Some addrA, message := [32, 9, 12288, 32]\<rparr>"

text \<open>The state after the first fetch of the three entries.\<close>

definition loaded :: app where
  "loaded = getAllMessages chain3 init"

text \<open>A feed of the three entries, seen through the \<open>mine\<close> tab by a visitor without an account.\<close>

definition visitor :: app where
  "visitor = init\<lparr>allMessages := map (\<lambda>i. formatMessage (entry i)) [2, 1, 0], filterType := F_mine\<rparr>"

section \<open>Reachable states\<close>

text \<open>
  The states the application can be in: the initial one, and what a handler or the passing
  of time makes of a reachable one, whatever the environment answers.
\<close>

inductive reachable :: "app \<Rightarrow> bool" where
  start: "reachable init"
| connect: "reachable s \<Longrightarrow> reachable (connectWallet w s)"
| session: "reachable s \<Longrightarrow> reachable (checkIfWalletIsConnected w s)"
| accounts: "reachable s \<Longrightarrow> reachable (accountsChanged as s)"
| getowner: "reachable s \<Longrightarrow> reachable (getOwner w s)"
| fetch: "reachable s \<Longrightarrow> reachable (getAllMessages w s)"
| post: "reachable s \<Longrightarrow> reachable (postMessage w s)"
| tab: "reachable s \<Longrightarrow> reachable (setFilterType f s)"
| typing: "reachable s \<Longrightarrow> reachable (setMessage m s)"
| copy: "reachable s \<Longrightarrow> reachable (copyAddress a s)"
| tick: "reachable s \<Longrightarrow> reachable (advance d s)"

section \<open>The record of effects and the frame of the basic steps\<close>

lemma calls_append: "calls (xs @ ys) = calls xs @ calls ys"
  by (induction xs rule: calls.induct) auto

lemma toasts_append: "toasts (xs @ ys) = toasts xs @ toasts ys"
  by (induction xs rule: toasts.induct) auto

lemma fetches_append: "fetches (xs @ ys) = fetches xs + fetches ys"
  by (simp add: fetches_def)

lemma fetches_simps [simp]:
  "fetches [] = 0"
  "fetches (Fetch # es) = Suc (fetches es)"
  "fetches (Call r # es) = fetches es"
  "fetches (Toast ty m # es) = fetches es"
  "fetches (ConsoleError # es) = fetches es"
  "fetches (ClipboardWrite a # es) = fetches es"
  by (simp_all add: fetches_def)

lemma calls_map_Call: "calls (map Call rs) = rs"
  by (induction rs) auto



lemma emit_fields [simp]:
  "currentAccount (emit e s) = currentAccount s"
  "owner (emit e s) = owner s"
  "message (emit e s) = message s"
  "isSubmitting (emit e s) = isSubmitting s"
  "isLoadingMessages (emit e s) = isLoadingMessages s"
  "allMessages (emit e s) = allMessages s"
  "filterType (emit e s) = filterType s"
  "toast (emit e s) = toast s"
  "toastTimeoutRef (emit e s) = toastTimeoutRef s"
  "timers (emit e s) = timers s"
  "now (emit e s) = now s"
  "timerSeq (emit e s) = timerSeq s"
  "trace (emit e s) = trace s @ [e]"
  by (simp_all add: emit_def)

text \<open>\<open>showToast\<close> writes the toast, the timers and the record of effects, nothing else.\<close>

lemma showToast_toast: "toast (showToast ty m s) = \<lparr>show = True, type = ty, msg = m\<rparr>"
  by (simp add: showToast_def setTimeout_def clearTimeout_def emit_def Let_def split: option.splits)

lemma showToast_trace: "trace (showToast ty m s) = trace s @ [Toast ty m]"
  by (simp add: showToast_def setTimeout_def clearTimeout_def emit_def Let_def split: option.splits)

lemma showToast_same_data: "same_data s (showToast ty m s)"
  by (simp add: same_data_def showToast_def setTimeout_def clearTimeout_def emit_def Let_def
      split: option.splits)

lemma showToast_fields:
  "currentAccount (showToast ty m s) = currentAccount s"
  "owner (showToast ty m s) = owner s"
  "message (showToast ty m s) = message s"
  "isSubmitting (showToast ty m s) = isSubmitting s"
  "isLoadingMessages (showToast ty m s) = isLoadingMessages s"
  "allMessages (showToast ty m s) = allMessages s"
  "filterType (showToast ty m s) = filterType s"
  "now (showToast ty m s) = now s"
  using showToast_same_data [of s ty m] by (simp_all add: same_data_def)

section \<open>The read loop and the joint await\<close>

lemma down_step: "limit \<le> i \<Longrightarrow> down i limit = i # down (i - 1) limit"
  by (simp add: down_def upto_rec2)

lemma down_empty: "\<not> limit \<le> i \<Longrightarrow> down i limit = []"
  by (simp add: down_def)

lemma set_down: "set (down i limit) = {limit..i}"
  by (simp add: down_def)



text \<open>The loop issues one read for each index from \<open>i\<close> down to \<open>limit\<close>, in that order.\<close>

lemma push_loop_eq:
  "push_loop w i limit (ps, s) =
     (ps @ map (contract_Messages w) (down i limit),
      s\<lparr>trace := trace s @ map (\<lambda>j. Call (Messages j)) (down i limit)\<rparr>)"
proof (induction w i limit "(ps, s)" arbitrary: ps s rule: push_loop.induct)
  case (1 w i limit promises s)
  show ?case
  proof (cases "limit \<le> i")
    case True
    then show ?thesis
      using 1 [OF True] by (subst push_loop.simps) (simp add: down_step emit_def)
  next
    case False
    then show ?thesis by (subst push_loop.simps) (simp add: down_empty)
  qed
qed

lemma Promise_all_map_ok:
  "(\<And>i. i \<in> set js \<Longrightarrow> f i = Inr (g i)) \<Longrightarrow> Promise_all (map f js) = Inr (map g js)"
  by (induction js) auto


section \<open>Fetching the recent messages\<close>

lemma try_ok:
  assumes "contract_getMessagesCount w = Inr c"
    and "\<And>i. max 0 (int c - 50) \<le> i \<Longrightarrow> i < int c \<Longrightarrow> contract_Messages w i = Inr (raw i)"
  shows "getAllMessages_try w s =
     (None, s\<lparr>isLoadingMessages := True,
              trace := trace s @ Call GetMessagesCount #
                 map (\<lambda>j. Call (Messages j)) (down (int c - 1) (max 0 (int c - 50))),
              allMessages := map (\<lambda>j. formatMessage (raw j)) (down (int c - 1) (max 0 (int c - 50)))\<rparr>)"
proof -
  have "Promise_all (map (contract_Messages w) (down (int c - 1) (max 0 (int c - 50)))) =
        Inr (map raw (down (int c - 1) (max 0 (int c - 50))))"
    by (rule Promise_all_map_ok) (simp add: set_down assms(2))
  then show ?thesis
    by (simp add: getAllMessages_try_def assms(1) push_loop_eq emit_def Let_def comp_def)
qed



lemma try_fst_ok:
  assumes "contract_getMessagesCount w = Inr c"
    and "\<And>i. max 0 (int c - 50) \<le> i \<Longrightarrow> i < int c \<Longrightarrow> contract_Messages w i = Inr (raw i)"
  shows "fst (getAllMessages_try w s) = None"
    and "allMessages (snd (getAllMessages_try w s)) =
           map (\<lambda>j. formatMessage (raw j)) (down (int c - 1) (max 0 (int c - 50)))"
  using try_ok [OF assms, of s] by simp_all


lemma try_trace: "trace (snd (getAllMessages_try w s)) = trace s @ map Call (fetch_calls w)"
  by (simp add: getAllMessages_try_def fetch_calls_def push_loop_eq emit_def Let_def comp_def
      split: sum.splits)



lemma getAllMessages_no_provider: "\<not> ethereum w \<Longrightarrow> getAllMessages w s = emit Fetch s"
  by (simp add: getAllMessages_def getProvider_def Let_def)

text \<open>With a provider: the \<open>try\<close> block, the \<open>catch\<close> when it threw, then the \<open>finally\<close>.\<close>

lemma getAllMessages_unfold:
  "ethereum w \<Longrightarrow> getAllMessages w s =
     (case fst (getAllMessages_try w (emit Fetch s)) of
        Some e \<Rightarrow> showToast Error (lit ''Failed to fetch messages'')
                    (emit ConsoleError (snd (getAllMessages_try w (emit Fetch s))))
      | None \<Rightarrow> snd (getAllMessages_try w (emit Fetch s)))\<lparr>isLoadingMessages := False\<rparr>"
  by (simp add: getAllMessages_def getProvider_def Let_def split: prod.splits option.splits)

lemma getAllMessages_loading: "ethereum w \<Longrightarrow> isLoadingMessages (getAllMessages w s) = False"
  by (simp add: getAllMessages_unfold)



text \<open>The reads of one run, when a provider is present: the count, then the window downwards.\<close>

lemma getAllMessages_calls:
  "ethereum w \<Longrightarrow> calls (trace (getAllMessages w s)) = calls (trace s) @ fetch_calls w"
  by (simp add: getAllMessages_unfold try_trace showToast_trace calls_append calls_map_Call
      split: option.splits)


subsection \<open>Doubles and integers\<close>

lemma floor_log2_bounds: "2 ^ k \<le> n \<Longrightarrow> n < 2 ^ Suc k \<Longrightarrow> floor_log2 n = k"
proof (induction k arbitrary: n)
  case 0
  then show ?case by (subst floor_log2.simps) simp
next
  case (Suc k)
  have "2 ^ k \<le> n div 2" "n div 2 < 2 ^ Suc k"
    using Suc.prems by auto
  then have "floor_log2 (n div 2) = k"
    by (rule Suc.IH)
  moreover have "(2::nat) \<le> 2 ^ Suc k"
    by simp
  then have "\<not> n < 2"
    using Suc.prems(1) by linarith
  ultimately show ?case by (subst floor_log2.simps) simp
qed

lemma floor_log2_at_53: "floor_log2 9007199254740992 = 53"
  using floor_log2_bounds [of 53 9007199254740992] by simp

lemma roundDouble_pos53: "roundDouble 9007199254740992 = 9007199254740992"
proof -
  have a: "nat \<bar>9007199254740992::int\<bar> = 9007199254740992"
    by simp
  show ?thesis
    unfolding roundDouble_def a Let_def floor_log2_at_53
    by simp
qed

lemma roundDouble_neg53: "roundDouble (- 9007199254740992) = - 9007199254740992"
proof -
  have a: "nat \<bar>- 9007199254740992::int\<bar> = 9007199254740992"
    by simp
  show ?thesis
    unfolding roundDouble_def a Let_def floor_log2_at_53
    by simp
qed

text \<open>Up to \<open>2 ^ 53\<close> in magnitude every integer is a double.\<close>

lemma roundDouble_safe: "\<bar>n\<bar> \<le> 9007199254740992 \<Longrightarrow> roundDouble n = n"
proof (cases "nat \<bar>n\<bar> < 9007199254740992")
  case True
  then show ?thesis by (simp add: roundDouble_def)
next
  case False
  assume "\<bar>n\<bar> \<le> 9007199254740992"
  with False have "n = 9007199254740992 \<or> n = - 9007199254740992"
    by linarith
  then show ?thesis
    using roundDouble_pos53 roundDouble_neg53 by auto
qed


lemma roundDouble_exact_above: "roundDouble 9007199254740996 = 9007199254740996"
proof -
  have l: "floor_log2 9007199254740996 = 53"
    using floor_log2_bounds [of 53 9007199254740996] by simp
  have a: "nat \<bar>9007199254740996::int\<bar> = 9007199254740996"
    by simp
  show ?thesis
    unfolding roundDouble_def a Let_def l
    by simp
qed

lemma roundDouble_stuck: "roundDouble 9007199254740995 = 9007199254740996"
proof -
  have l: "floor_log2 9007199254740995 = 53"
    using floor_log2_bounds [of 53 9007199254740995] by simp
  have a: "nat \<bar>9007199254740995::int\<bar> = 9007199254740995"
    by simp
  show ?thesis
    unfolding roundDouble_def a Let_def l
    by simp
qed





lemma getAllMessages_double_count_fails:
  assumes "contract_getMessagesCount w = Inl e"
  shows "getAllMessages_double w s = Some (getAllMessages w s)"
  by (simp add: getAllMessages_double_def getAllMessages_def getProvider_def Let_def
      getAllMessages_try_double_def getAllMessages_try_def assms)

text \<open>A counter that \<open>i--\<close> leaves as it is never gets below the limit.\<close>

lemma push_loop_double_returns:
  assumes "push_loop_double w i limit acc = Some y"
  shows "\<not> (limit \<le> i \<and> roundDouble (i - 1) = i)"
proof (rule push_loop_double.raw_induct
    [where P = "\<lambda>w i limit acc y. \<not> (limit \<le> i \<and> roundDouble (i - 1) = i)", OF _ assms])
  fix f w i limit acc y
  assume ih: "\<And>w i limit acc y. f w i limit acc = Some y \<Longrightarrow>
                \<not> (limit \<le> i \<and> roundDouble (i - 1) = i)"
    and body: "(if limit \<le> i
         then f w (roundDouble (i - 1)) limit
                (fst acc @ [contract_Messages w i], emit (Call (Messages i)) (snd acc))
         else Some acc) = Some y"
  show "\<not> (limit \<le> i \<and> roundDouble (i - 1) = i)"
  proof
    assume st: "limit \<le> i \<and> roundDouble (i - 1) = i"
    with body have "f w i limit
        (fst acc @ [contract_Messages w i], emit (Call (Messages i)) (snd acc)) = Some y"
      by simp
    from ih [OF this] st show False by simp
  qed
qed

lemma push_loop_double_stuck:
  "limit \<le> i \<Longrightarrow> roundDouble (i - 1) = i \<Longrightarrow> push_loop_double w i limit acc = None"
  using push_loop_double_returns [of w i limit acc]
  by (cases "push_loop_double w i limit acc") auto

text \<open>With a log of \<open>2 ^ 53 + 4\<close> entries the handler never returns.\<close>

lemma fetch_never_returns:
  assumes "ethereum w" "contract_getMessagesCount w = Inr 9007199254740996"
  shows "getAllMessages_double w s = None"
proof -
  have a: "roundDouble 9007199254740946 = 9007199254740946"
    by (rule roundDouble_safe) simp
  have b: "push_loop_double w 9007199254740996 9007199254740946 acc = None" for acc
    by (rule push_loop_double_stuck) (simp_all add: roundDouble_stuck)
  have "getAllMessages_try_double w t = None" for t
    by (simp add: getAllMessages_try_double_def assms(2) Let_def roundDouble_exact_above a b
        roundDouble_stuck)
  then show ?thesis
    by (simp add: getAllMessages_double_def getProvider_def assms(1) Let_def)
qed






section \<open>Posting a message\<close>

lemma postMessage_empty:
  "trim (message s) = [] \<Longrightarrow> postMessage w s = showToast Error (lit ''Message cannot be empty'') s"
  by (simp add: postMessage_def)

lemma postMessage_no_provider:
  "\<not> ethereum w \<Longrightarrow> trim (message s) \<noteq> [] \<Longrightarrow> postMessage w s = s"
  by (simp add: postMessage_def getProvider_def)

text \<open>With a text and a provider: the \<open>try\<close> block, the \<open>catch\<close> when it threw, the \<open>finally\<close>.\<close>

lemma postMessage_unfold:
  "ethereum w \<Longrightarrow> trim (message s) \<noteq> [] \<Longrightarrow> postMessage w s =
     (case fst (postMessage_try w s) of
        Some e \<Rightarrow> showToast Error (lit ''Transaction failed. Check console.'')
                    (emit ConsoleError (snd (postMessage_try w s)))
      | None \<Rightarrow> snd (postMessage_try w s))\<lparr>isSubmitting := False\<rparr>"
  by (simp add: postMessage_def getProvider_def Let_def split: prod.splits option.splits)


lemma post_try_fail:
  assumes "provider_getSigner w = Inl e \<or>
     (provider_getSigner w = Inr u \<and> contract_postMessage w (message s) = Inl e) \<or>
     (provider_getSigner w = Inr u \<and> contract_postMessage w (message s) = Inr t \<and>
      tx_wait w t = Inl e)"
  shows "fst (postMessage_try w s) = Some e \<and> message (snd (postMessage_try w s)) = message s"
  using assms by (auto simp: postMessage_try_def Let_def showToast_fields)

text \<open>
  Claim C4.  When the trimmed \<open>message\<close> is empty, \<open>postMessage\<close> calls neither the provider
  nor the contract and starts no fetch; it shows the error toast \<open>Message cannot be empty\<close>,
  and the account, the owner, the text, both flags, the feed and the filter stay as they were.
\<close>

theorem empty_post_rejected:
  assumes "trim (message s) = []"
  shows "calls (trace (postMessage w s)) = calls (trace s) \<and>
         fetches (trace (postMessage w s)) = fetches (trace s) \<and>
         toast (postMessage w s) =
           \<lparr>show = True, type = Error, msg = lit ''Message cannot be empty''\<rparr> \<and>
         trace (postMessage w s) = trace s @ [Toast Error (lit ''Message cannot be empty'')] \<and>
         same_data s (postMessage w s)"
  by (simp add: postMessage_def assms showToast_toast showToast_trace showToast_same_data
      calls_append fetches_append)

theorem empty_post_rejected_witness:
  "trim (message blank) = [] \<and>
   calls (trace (postMessage chain3 blank)) = [] \<and>
   toast (postMessage chain3 blank) =
     \<lparr>show = True, type = Error, msg = lit ''Message cannot be empty''\<rparr> \<and>
   message (postMessage chain3 blank) = [32, 9, 12288, 32] \<and>
   isSubmitting (postMessage chain3 blank) = False \<and>
   allMessages (postMessage chain3 blank) = []"
proof -
  have h: "trim (message blank) = []"
    by (simp add: blank_def trim_def isWhiteSpace_def)
  show ?thesis
    using empty_post_rejected [OF h, of chain3] h
    by (simp add: same_data_def) (simp add: blank_def init_def)
qed



text \<open>
  Claim C6.  When \<open>getSigner\<close> rejects, or the submission rejects, or \<open>tx.wait()\<close> rejects,
  \<open>postMessage\<close> ends with the error toast \<open>Transaction failed. Check console.\<close> as its last
  effect and as the toast on display, with \<open>message\<close> as it was, and with \<open>isSubmitting\<close>
  false, so that the next submission is not blocked.
\<close>

theorem post_failure:
  assumes "ethereum w" "trim (message s) \<noteq> []"
    and "provider_getSigner w = Inl e \<or>
     (provider_getSigner w = Inr u \<and> contract_postMessage w (message s) = Inl e) \<or>
     (provider_getSigner w = Inr u \<and> contract_postMessage w (message s) = Inr t \<and>
      tx_wait w t = Inl e)"
  shows "toast (postMessage w s) =
           \<lparr>show = True, type = Error, msg = lit ''Transaction failed. Check console.''\<rparr> \<and>
         last (trace (postMessage w s)) = Toast Error (lit ''Transaction failed. Check console.'') \<and>
         message (postMessage w s) = message s \<and>
         isSubmitting (postMessage w s) = False"
  using post_try_fail [OF assms(3)]
  by (simp add: postMessage_unfold assms(1,2) showToast_fields showToast_toast showToast_trace)

theorem post_failure_witness:
  "toast (postMessage reverting draft) =
     \<lparr>show = True, type = Error, msg = lit ''Transaction failed. Check console.''\<rparr> \<and>
   message (postMessage reverting draft) = lit ''hello'' \<and>
   isSubmitting (postMessage reverting draft) = False \<and>
   message (postMessage declining draft) = lit ''hello'' \<and>
   isSubmitting (postMessage declining draft) = False"
proof -
  have h: "ethereum reverting" "trim (message draft) \<noteq> []"
    "provider_getSigner reverting = Inr () \<and> contract_postMessage reverting (message draft) = Inr 7 \<and>
       tx_wait reverting 7 = Inl (JsError (lit ''reverted''))"
    by (simp_all add: reverting_def chain3_def draft_def trim_def lit_def isWhiteSpace_def)
  have g: "ethereum declining" "provider_getSigner declining = Inl rejected"
    by (simp_all add: declining_def chain3_def)
  have m: "message draft = lit ''hello''"
    by (simp add: draft_def)
  show ?thesis
    using post_failure [of reverting draft "JsError (lit ''reverted'')" "()" 7] h
      post_failure [of declining draft rejected "()" 7] g
    by (simp add: m)
qed

text \<open>
  Claim C10.  A run of \<open>getAllMessages\<close> with a provider ends with \<open>isLoadingMessages\<close>
  false, and a run of \<open>postMessage\<close> with a text and a provider ends with \<open>isSubmitting\<close>
  false, whatever the provider and the contract answer: the \<open>finally\<close> blocks release both
  flags on every path.
\<close>

theorem flags_released:
  "(ethereum w \<longrightarrow> isLoadingMessages (getAllMessages w s) = False) \<and>
   (ethereum w \<and> trim (message s) \<noteq> [] \<longrightarrow> isSubmitting (postMessage w s) = False)"
  by (simp add: getAllMessages_loading postMessage_unfold)

theorem flags_released_witness:
  "isLoadingMessages (getAllMessages chain3_broken loaded) = False \<and>
   isSubmitting (postMessage reverting draft) = False"
proof -
  have h: "ethereum chain3_broken" "ethereum reverting" "trim (message draft) \<noteq> []"
    by (simp_all add: chain3_broken_def reverting_def chain3_def draft_def trim_def lit_def
        isWhiteSpace_def)
  show ?thesis
    using flags_released [of chain3_broken loaded] flags_released [of reverting draft] h
    by simp
qed

section \<open>No wallet provider\<close>

text \<open>
  Claim C8, as stated, fails for \<open>postMessage\<close>: without a wallet extension a user's draft
  is posted nowhere and no toast is shown either.  The handler has no \<open>else\<close> branch for a
  missing provider, as \<open>getAllMessages\<close>, \<open>getOwner\<close> and \<open>checkIfWalletIsConnected\<close> have
  none; the page disables the post button while no account is connected.
\<close>

theorem post_without_provider_is_silent:
  "trim (message draft) \<noteq> [] \<and> \<not> ethereum no_wallet \<and>
   toasts (trace (postMessage no_wallet draft)) = [] \<and>
   toast (postMessage no_wallet draft) = \<lparr>show = False, type = NoType, msg = []\<rparr>"
  by (simp add: postMessage_def getProvider_def no_wallet_def chain3_def draft_def init_def
      trim_def lit_def isWhiteSpace_def)

text \<open>
  Claim C8, amended.  Without a provider, \<open>connectWallet\<close> shows the error toast
  \<open>Please install MetaMask\<close> and changes nothing else, and \<open>postMessage\<close> with a non-empty
  trimmed text is blocked: it returns the state as it was, with no call and no toast.  With a
  provider whose user declines, \<open>connectWallet\<close> shows the error toast
  \<open>Connection rejected\<close> and leaves the account and the rest of the data as they were.  The
  two messages differ.
\<close>

theorem provider_absent_or_rejected:
  "(\<not> ethereum w \<longrightarrow>
      toast (connectWallet w s) = \<lparr>show = True, type = Error, msg = lit ''Please install MetaMask''\<rparr> \<and>
      trace (connectWallet w s) = trace s @ [Toast Error (lit ''Please install MetaMask'')] \<and>
      same_data s (connectWallet w s)) \<and>
   (\<not> ethereum w \<and> trim (message s) \<noteq> [] \<longrightarrow> postMessage w s = s) \<and>
   (ethereum w \<and> eth_requestAccounts w = Inl e \<longrightarrow>
      toast (connectWallet w s) = \<lparr>show = True, type = Error, msg = lit ''Connection rejected''\<rparr> \<and>
      toasts (trace (connectWallet w s)) = toasts (trace s) @ [(Error, lit ''Connection rejected'')] \<and>
      same_data s (connectWallet w s)) \<and>
   lit ''Please install MetaMask'' \<noteq> lit ''Connection rejected''"
proof -
  have a: "\<not> ethereum w \<Longrightarrow> connectWallet w s = showToast Error (lit ''Please install MetaMask'') s"
    by (simp add: connectWallet_def getProvider_def)
  have b: "ethereum w \<Longrightarrow> eth_requestAccounts w = Inl e \<Longrightarrow>
      connectWallet w s =
        showToast Error (lit ''Connection rejected'') (emit ConsoleError (emit (Call EthRequestAccounts) s))"
    by (simp add: connectWallet_def getProvider_def Let_def)
  have c: "same_data s (showToast Error (lit ''Connection rejected'')
             (emit ConsoleError (emit (Call EthRequestAccounts) s)))"
    using showToast_same_data [of "emit ConsoleError (emit (Call EthRequestAccounts) s)"]
    by (simp add: same_data_def)
  have d: "lit ''Please install MetaMask'' \<noteq> lit ''Connection rejected''"
    by (simp add: lit_def)
  show ?thesis
    using c d
    by (simp add: a b showToast_toast showToast_trace showToast_same_data postMessage_no_provider
        toasts_append)
qed

theorem provider_absent_or_rejected_witness:
  "toast (connectWallet no_wallet draft) =
     \<lparr>show = True, type = Error, msg = lit ''Please install MetaMask''\<rparr> \<and>
   currentAccount (connectWallet no_wallet draft) = Some addrA \<and>
   postMessage no_wallet draft = draft \<and>
   toast (connectWallet declining draft) =
     \<lparr>show = True, type = Error, msg = lit ''Connection rejected''\<rparr> \<and>
   currentAccount (connectWallet declining draft) = Some addrA"
proof -
  have h: "\<not> ethereum no_wallet" "trim (message draft) \<noteq> []" "ethereum declining"
    "eth_requestAccounts declining = Inl rejected"
    by (simp_all add: no_wallet_def declining_def chain3_def draft_def trim_def lit_def
        isWhiteSpace_def)
  have c: "currentAccount draft = Some addrA"
    by (simp add: draft_def)
  show ?thesis
    using provider_absent_or_rejected [of no_wallet draft rejected]
      provider_absent_or_rejected [of declining draft rejected] h
    by (simp add: same_data_def c)
qed

section \<open>The displayed messages\<close>

text \<open>
  Claim C3.  With the \<open>mine\<close> filter and no account, nothing is displayed, whatever the feed
  holds.  The displayed sequence is an expression of the component body over the current
  state: it has no state to return, and choosing a tab writes \<open>filterType\<close> only, so under
  either filter the feed and the record of effects stay as they were (no read is issued, no
  fetch starts), and what is displayed is a subsequence of the feed.
\<close>

theorem mine_without_account:
  "(filterType s = F_mine \<and> currentAccount s = None \<longrightarrow> displayedMessages toLowerCase s = []) \<and>
   allMessages (setFilterType f s) = allMessages s \<and>
   trace (setFilterType f s) = trace s \<and>
   subseq (displayedMessages toLowerCase (setFilterType f s)) (allMessages s)"
  by (simp add: displayedMessages_def setFilterType_def)

theorem mine_without_account_witness:
  "filterType visitor = F_mine \<and> currentAccount visitor = None \<and> length (allMessages visitor) = 3 \<and>
   displayedMessages asciiLower visitor = [] \<and>
   allMessages (setFilterType F_all visitor) = allMessages visitor \<and>
   trace (setFilterType F_all visitor) = trace visitor"
  using mine_without_account [of visitor asciiLower F_all]
  by (simp add: visitor_def init_def)

text \<open>
  The log of three entries with senders A, B, A: the fetch issues the count read and the reads
  of the indices 2, 1, 0, the feed is the entries 2, 1, 0, and account A sees the entries 2
  and 0 under the \<open>mine\<close> filter.
\<close>

lemma down_2_0: "down 2 0 = [2, 1, 0]"
  by (simp add: down_step down_empty)

lemma chain3_facts:
  "ethereum chain3" "contract_getMessagesCount chain3 = Inr 3"
  "contract_Messages chain3 i = Inr (entry i)"
  by (simp_all add: chain3_def)

lemma loaded_feed:
  "allMessages loaded = [formatMessage (entry 2), formatMessage (entry 1), formatMessage (entry 0)]"
  using try_fst_ok [of chain3 3 entry "emit Fetch init"]
  by (simp add: loaded_def getAllMessages_unfold chain3_facts down_2_0)

lemma loaded_calls: "calls (trace loaded) = [GetMessagesCount, Messages 2, Messages 1, Messages 0]"
  by (simp add: loaded_def getAllMessages_calls fetch_calls_def chain3_facts down_2_0)
    (simp add: init_def)

lemma loaded_mine:
  "displayedMessages asciiLower (accountsChanged [addrA] (setFilterType F_mine loaded)) =
     [formatMessage (entry 2), formatMessage (entry 0)]"
  by (simp add: displayedMessages_def accountsChanged_def setFilterType_def first_account_def
      loaded_feed formatMessage_def entry_def asciiLower_def addrA_def addrB_def lit_def)

section \<open>The avatar gradient\<close>

text \<open>The gradient of a non-empty address is decided by its code units 2 to 9.\<close>

lemma avatar_reads_slice:
  "a \<noteq> [] \<Longrightarrow> b \<noteq> [] \<Longrightarrow> slice a 2 10 = slice b 2 10 \<Longrightarrow>
     generateAvatarGradient a = generateAvatarGradient b"
  by (simp add: generateAvatarGradient_def)

text \<open>
  Claim C9.  \<open>generateAvatarGradient\<close> reads its argument and nothing else (it is a
  function of the address string alone, outside the component), so two invocations with the
  same address give the same string.
\<close>

theorem avatar_deterministic:
  "address1 = address2 \<Longrightarrow> generateAvatarGradient address1 = generateAvatarGradient address2"
  by simp

theorem avatar_deterministic_witness:
  "generateAvatarGradient (lit ''0xC12F1c378580e22ab3491E055de000FED075E24c'') =
     generateAvatarGradient (lit ''0xC12F1c378580e22ab3491E055de000FED075E24c'') \<and>
   generateAvatarGradient (lit ''0xC12F1c378580e22ab3491E055de000FED075E24c'') =
     lit ''linear-gradient(135deg, rgb(47,28,55), rgb(208,227,200))''"
proof -
  have "generateAvatarGradient (lit ''0xC12F1c378580e22ab3491E055de000FED075E24c'') =
     lit ''linear-gradient(135deg, rgb(47,28,55), rgb(208,227,200))''"
    by code_simp
  with avatar_deterministic [OF refl, of "lit ''0xC12F1c378580e22ab3491E055de000FED075E24c''"]
  show ?thesis by simp
qed

section \<open>The toast timer\<close>

lemma timers_ok_upd [simp]:
  "timers_ok (emit e s) = timers_ok s"
  "timers_ok (s\<lparr>currentAccount := a\<rparr>) = timers_ok s"
  "timers_ok (s\<lparr>owner := b\<rparr>) = timers_ok s"
  "timers_ok (s\<lparr>message := m\<rparr>) = timers_ok s"
  "timers_ok (s\<lparr>isSubmitting := c\<rparr>) = timers_ok s"
  "timers_ok (s\<lparr>isLoadingMessages := c\<rparr>) = timers_ok s"
  "timers_ok (s\<lparr>allMessages := ms\<rparr>) = timers_ok s"
  "timers_ok (s\<lparr>filterType := f\<rparr>) = timers_ok s"
  by (simp_all add: timers_ok_def emit_def)

lemma timers_ok_init: "timers_ok init"
  by (simp add: timers_ok_def init_def)

text \<open>The \<open>clearTimeout\<close> of \<open>showToast\<close> empties the queue.\<close>

lemma timers_ok_clear:
  assumes "timers_ok s"
  shows "timers (case toastTimeoutRef s of
                  Some t \<Rightarrow> if t \<noteq> 0 then clearTimeout t s else s
                | None \<Rightarrow> s) = []"
proof (cases "toastTimeoutRef s")
  case None
  with assms show ?thesis
    by (cases "timers s") (simp_all add: timers_ok_def)
next
  case (Some t)
  have "filter (\<lambda>p. fst p \<noteq> t) (timers s) = []"
    using assms Some by (auto simp: timers_ok_def list_all_iff filter_empty_conv)
  moreover have "t = 0 \<Longrightarrow> timers s = []"
    using assms Some by (cases "timers s") (auto simp: timers_ok_def)
  ultimately show ?thesis
    using Some by (simp add: clearTimeout_def)
qed

lemma clear_fields:
  "timerSeq (case toastTimeoutRef s of
                  Some t \<Rightarrow> if t \<noteq> 0 then clearTimeout t s else s
                | None \<Rightarrow> s) = timerSeq s"
  "now (case toastTimeoutRef s of
                  Some t \<Rightarrow> if t \<noteq> 0 then clearTimeout t s else s
                | None \<Rightarrow> s) = now s"
  by (simp_all add: clearTimeout_def split: option.splits)

lemma showToast_timers:
  assumes "timers_ok s"
  shows "timers (showToast ty m s) = [(Suc (timerSeq s), now s + 3000)]"
    and "toastTimeoutRef (showToast ty m s) = Some (Suc (timerSeq s))"
    and "timerSeq (showToast ty m s) = Suc (timerSeq s)"
  using timers_ok_clear [OF assms] clear_fields [of s]
  by (simp_all add: showToast_def setTimeout_def emit_def Let_def)

lemma showToast_timers_ok: "timers_ok s \<Longrightarrow> timers_ok (showToast ty m s)"
  by (simp add: timers_ok_def [of "showToast ty m s"] showToast_timers)

lemma advance_timers_ok: "timers_ok s \<Longrightarrow> timers_ok (advance d s)"
  by (simp add: timers_ok_def advance_def Let_def list_all_iff)

lemma advance_before:
  assumes "timers s = [(t, due)]" "now s + d < due"
  shows "advance d s = s\<lparr>now := now s + d\<rparr>"
  using assms by (simp add: advance_def Let_def)

lemma advance_after:
  assumes "timers s = [(t, due)]" "due \<le> now s + d"
  shows "advance d s = s\<lparr>now := now s + d, timers := [], toast := (toast s)\<lparr>show := False\<rparr>\<rparr>"
  using assms by (simp add: advance_def Let_def)

text \<open>Every handler keeps the timer discipline, so every reachable state has it.\<close>

lemma try_timers_ok: "timers_ok (snd (getAllMessages_try w s)) = timers_ok s"
  by (simp add: getAllMessages_try_def push_loop_eq Let_def timers_ok_def emit_def split: sum.splits)

lemma getAllMessages_timers_ok: "timers_ok s \<Longrightarrow> timers_ok (getAllMessages w s)"
  by (cases "ethereum w")
    (simp_all add: getAllMessages_unfold getAllMessages_no_provider try_timers_ok
      showToast_timers_ok split: option.splits)

lemma post_try_timers_ok: "timers_ok s \<Longrightarrow> timers_ok (snd (postMessage_try w s))"
  by (simp add: postMessage_try_def Let_def showToast_timers_ok getAllMessages_timers_ok
      split: sum.splits)

lemma postMessage_timers_ok:
  assumes "timers_ok s"
  shows "timers_ok (postMessage w s)"
proof (cases "trim (message s) = []")
  case True
  then show ?thesis by (simp add: postMessage_empty showToast_timers_ok assms)
next
  case False
  show ?thesis
  proof (cases "ethereum w")
    case True
    show ?thesis
      using post_try_timers_ok [OF assms, of w]
      by (simp add: postMessage_unfold [OF True False] showToast_timers_ok split: option.splits)
  next
    case no: False
    then show ?thesis by (simp add: postMessage_no_provider False assms)
  qed
qed

lemma connectWallet_timers_ok: "timers_ok s \<Longrightarrow> timers_ok (connectWallet w s)"
  by (simp add: connectWallet_def getProvider_def Let_def showToast_timers_ok split: sum.splits)

lemma reachable_timers_ok: "reachable s \<Longrightarrow> timers_ok s"
proof (induction rule: reachable.induct)
  case start
  show ?case by (rule timers_ok_init)
next
  case (connect s w)
  then show ?case by (simp add: connectWallet_timers_ok)
next
  case (session s w)
  then show ?case
    by (simp add: checkIfWalletIsConnected_def getProvider_def Let_def split: sum.splits)
next
  case (accounts s as)
  then show ?case by (simp add: accountsChanged_def)
next
  case (getowner s w)
  then show ?case by (simp add: getOwner_def getProvider_def Let_def split: sum.splits)
next
  case (fetch s w)
  then show ?case by (simp add: getAllMessages_timers_ok)
next
  case (post s w)
  then show ?case by (simp add: postMessage_timers_ok)
next
  case (tab s f)
  then show ?case by (simp add: setFilterType_def)
next
  case (typing s m)
  then show ?case by (simp add: setMessage_def)
next
  case (copy s a)
  then show ?case by (simp add: copyAddress_def showToast_timers_ok)
next
  case (tick s d)
  then show ?case by (simp add: advance_timers_ok)
qed

text \<open>
  Claim C7.  In a state with the timer discipline (every reachable state), let a first toast
  be shown, let \<open>wait\<close> milliseconds pass, fewer than 3000, so that it is still on display,
  and let a second toast be shown.  Then the first toast's timer is no longer pending: the
  only pending timer is a new one, due 3000 ms after the second toast.  The toast on display
  has the second's type and message at once, keeps them on display for every delay shorter
  than 3000 ms after the second toast, and is hidden when 3000 ms have passed since the
  second toast.  Time is the clock of the model: a timer fires when its due time is reached.
\<close>

theorem toast_superseded:
  assumes "timers_ok s" "wait < 3000" "later < 3000"
    and "sa = showToast kind_a msg_a s" "sb = advance wait sa" "sc = showToast kind_b msg_b sb"
  shows "toast sb = \<lparr>show = True, type = kind_a, msg = msg_a\<rparr> \<and>
         timers sb = [(Suc (timerSeq s), now s + 3000)] \<and>
         toast sc = \<lparr>show = True, type = kind_b, msg = msg_b\<rparr> \<and>
         timers sc = [(Suc (Suc (timerSeq s)), now s + wait + 3000)] \<and>
         toast (advance later sc) = \<lparr>show = True, type = kind_b, msg = msg_b\<rparr> \<and>
         toast (advance 3000 sc) = \<lparr>show = False, type = kind_b, msg = msg_b\<rparr>"
proof -
  have ta: "timers sa = [(Suc (timerSeq s), now s + 3000)]"
    and qa: "timerSeq sa = Suc (timerSeq s)" and na: "now sa = now s"
    and oka: "timers_ok sa" and va: "toast sa = \<lparr>show = True, type = kind_a, msg = msg_a\<rparr>"
    using assms(1) by (simp_all add: assms(4) showToast_timers showToast_fields
        showToast_timers_ok showToast_toast)
  have eb: "sb = sa\<lparr>now := now s + wait\<rparr>"
    using advance_before [OF ta, of wait] assms(2) by (simp add: assms(5) na)
  have okb: "timers_ok sb"
    using oka by (simp add: assms(5) advance_timers_ok)
  have tc: "timers sc = [(Suc (Suc (timerSeq s)), now s + wait + 3000)]"
    using showToast_timers(1) [OF okb, of kind_b msg_b] by (simp add: assms(6)) (simp add: eb qa)
  have vc: "toast sc = \<lparr>show = True, type = kind_b, msg = msg_b\<rparr>"
    by (simp add: assms(6) showToast_toast)
  have nc: "now sc = now s + wait"
    by (simp add: assms(6) showToast_fields) (simp add: eb)
  have a: "toast (advance later sc) = \<lparr>show = True, type = kind_b, msg = msg_b\<rparr>"
    using advance_before [OF tc, of later] assms(3) by (simp add: nc vc)
  have b: "toast (advance 3000 sc) = \<lparr>show = False, type = kind_b, msg = msg_b\<rparr>"
    using advance_after [OF tc, of 3000] by (simp add: nc vc)
  show ?thesis
    using a b tc vc by (simp add: eb ta va)
qed

theorem toast_superseded_witness:
  "toast (advance 1000 (showToast Loading (lit ''first'') init)) =
     \<lparr>show = True, type = Loading, msg = lit ''first''\<rparr> \<and>
   toast (advance 2999 (showToast Success (lit ''second'')
       (advance 1000 (showToast Loading (lit ''first'') init)))) =
     \<lparr>show = True, type = Success, msg = lit ''second''\<rparr> \<and>
   toast (advance 3000 (showToast Success (lit ''second'')
       (advance 1000 (showToast Loading (lit ''first'') init)))) =
     \<lparr>show = False, type = Success, msg = lit ''second''\<rparr>"
proof -
  have ok: "timers_ok init"
    by (simp add: timers_ok_def init_def)
  show ?thesis
    using toast_superseded [where wait = 1000 and later = 2999 and kind_a = Loading
        and msg_a = "lit ''first''" and kind_b = Success and msg_b = "lit ''second''",
        OF ok _ _ refl refl refl]
    by simp
qed

end
